theory Spec2Isabelle
  imports Main "HOL-Library.Sublist"
begin

section \<open>JavaScript values and strings\<close>

text \<open>
  A JavaScript string is modelled as a HOL \<open>string\<close>: every \<open>char\<close> stands for one
  code unit with a value below 256. Objects are association lists of their own
  enumerable properties in insertion order (keys are distinct); numbers are only
  copied by the code modelled here and are carried as integers.
\<close>

datatype jsval =
    Undefined
  | Null
  | Bool bool
  | Num int
  | Str string
  | Arr "jsval list"
  | Obj "(string \<times> jsval) list"

text \<open>A \<open>Record<string, string>\<close> as a JavaScript value.\<close>

definition strRecord :: "(string \<times> string) list \<Rightarrow> jsval" where
  "strRecord kvs = Obj (map (\<lambda>(k, v). (k, Str v)) kvs)"

subsection \<open>Characters\<close>

text \<open>
  Lower-casing of the letters A to Z. The code compares lower-cased text only with
  ASCII literals, and matches its regular expressions with the \<open>i\<close> flag against ASCII
  literals; on code units below 256 both agree with this function.
\<close>

definition toLowerAscii :: "char \<Rightarrow> char" where
  "toLowerAscii c =
     (case map_of (zip ''ABCDEFGHIJKLMNOPQRSTUVWXYZ'' ''abcdefghijklmnopqrstuvwxyz'') c of
        Some l \<Rightarrow> l
      | None \<Rightarrow> c)"

definition toLowerCase :: "string \<Rightarrow> string" where
  "toLowerCase s = map toLowerAscii s"

text \<open>
  The class \<open>\s\<close> of a regular expression, which is also what \<open>trim\<close> removes: tab,
  line feed, vertical tab, form feed, carriage return, space and no-break space.
\<close>

definition isSpace :: "char \<Rightarrow> bool" where
  "isSpace c = (c \<in> set [CHR 0x09, CHR 0x0A, CHR 0x0B, CHR 0x0C, CHR 0x0D, CHR 0x20, CHR 0xA0])"

text \<open>\<open>v.slice(-4)\<close>: the part of \<open>v\<close> from index \<open>max (length v - 4) 0\<close> on.\<close>

definition last4 :: "string \<Rightarrow> string" where
  "last4 v = drop (length v - 4) v"

section \<open>The redactor of the status command: \<open>src/commands/status.ts\<close>\<close>

text \<open>\<open>maskLast4\<close>, the local function of \<open>redactSensitive\<close>.\<close>

definition maskLast4 :: "jsval \<Rightarrow> jsval" where
  "maskLast4 v =
     (case v of
        Str s \<Rightarrow> (if length s = 0 then v else Str (''****'' @ last4 s))
      | _ \<Rightarrow> v)"

text \<open>
  \<open>SENSITIVE_KEYS\<close> is an anchored alternation with the \<open>i\<close> flag: the key, lower-cased,
  is one of eleven words. \<open>ENV_SENSITIVE\<close> is not anchored: the key, lower-cased,
  contains one of six words.
\<close>

definition SENSITIVE_KEYS :: "string \<Rightarrow> bool" where
  "SENSITIVE_KEYS k =
     (toLowerCase k \<in> set [''authorization'', ''accesskey'', ''access-key'', ''access_key'',
        ''apikey'', ''api-key'', ''api_key'', ''token'', ''secret'', ''password'', ''pass''])"

definition ENV_SENSITIVE :: "string \<Rightarrow> bool" where
  "ENV_SENSITIVE k =
     (\<exists>w \<in> set [''token'', ''secret'', ''key'', ''password'', ''pass'', ''auth''].
        sublist w (toLowerCase k))"

text \<open>
  \<open>structuredCloneSafe\<close> returns a deep copy. On values, which have no identity, a deep
  copy is the value itself; the configuration values read from JSON and TOML files
  have no functions and no cycles, on which the copy could fail or differ.
\<close>

definition structuredCloneSafe :: "'a \<Rightarrow> 'a" where
  "structuredCloneSafe v = v"

text \<open>
  The loop \<open>for (const [k, v] of Object.entries(o)) if (test(k)) o[k] = maskLast4(v)\<close>:
  every entry whose key passes the test gets the mask of its value; keys and their
  order stay.
\<close>

definition maskEntries :: "(string \<Rightarrow> bool) \<Rightarrow> (string \<times> jsval) list \<Rightarrow> (string \<times> jsval) list" where
  "maskEntries test es = map (\<lambda>(k, v). if test k then (k, maskLast4 v) else (k, v)) es"

text \<open>
  The guarded loops over \<open>clone.headers\<close> and \<open>clone.env\<close>: they run when the field
  holds an object. An array is an object too, but its keys are indices, which pass
  neither test, so only a plain object changes.
\<close>

definition maskField :: "string \<Rightarrow> (string \<Rightarrow> bool) \<Rightarrow> (string \<times> jsval) list \<Rightarrow> (string \<times> jsval) list" where
  "maskField field test clone =
     map (\<lambda>(k, v). if k = field
                     then (k, (case v of Obj es \<Rightarrow> Obj (maskEntries test es) | _ \<Rightarrow> v))
                     else (k, v)) clone"

definition redactSensitive :: "(string \<times> jsval) list \<Rightarrow> (string \<times> jsval) list" where
  "redactSensitive obj =
     (let clone = structuredCloneSafe obj;
          clone = maskField ''headers'' SENSITIVE_KEYS clone;
          clone = maskField ''env'' ENV_SENSITIVE clone
      in maskEntries SENSITIVE_KEYS clone)"

section \<open>The configure command: \<open>src/commands/configure.ts\<close>\<close>

text \<open>\<open>ConfigureCommand.redact\<close>: an absent or empty value gives the empty string.\<close>

definition redact :: "string option \<Rightarrow> string" where
  "redact v =
     (case v of
        None \<Rightarrow> []
      | Some s \<Rightarrow> (if s = [] then [] else ''****'' @ last4 s))"

section \<open>The renderer: \<open>src/renderers/mcp.ts\<close>\<close>

datatype Transport = Http | Sse | Stdio

text \<open>
  \<open>RenderInput\<close>. The field \<open>agent\<close> is declared as the union of three literals; the
  function has a branch for every other string as well, so the field is a string here.
  An optional field that is absent is \<open>None\<close>.
\<close>

record RenderInput =
  agent :: string
  serverId :: string
  transport :: Transport
  url :: "string option"
  headers :: "(string \<times> string) list option"
  command :: "string option"
  args :: "string list option"
  cwd :: "string option"
  env :: "(string \<times> string) list option"
  timeout :: "int option"

text \<open>\<open>nonEmpty(obj)\<close>: the object itself when it has at least one key, else undefined.\<close>

definition nonEmpty :: "(string \<times> string) list option \<Rightarrow> (string \<times> string) list option" where
  "nonEmpty obj =
     (case obj of
        None \<Rightarrow> None
      | Some kvs \<Rightarrow> (if length (map fst kvs) > 0 then Some kvs else None))"

text \<open>
  The conditional spreads \<open>...(c ? { key: v } : {})\<close>. A string is truthy when it is
  present and not empty; an array or an object is truthy when it is present.
\<close>

definition spreadStr :: "string \<Rightarrow> string option \<Rightarrow> (string \<times> jsval) list" where
  "spreadStr key v =
     (case v of None \<Rightarrow> [] | Some s \<Rightarrow> (if s = [] then [] else [(key, Str s)]))"

definition spreadArgs :: "string list option \<Rightarrow> (string \<times> jsval) list" where
  "spreadArgs v = (case v of None \<Rightarrow> [] | Some xs \<Rightarrow> [(''args'', Arr (map Str xs))])"

definition spreadTruthyRecord :: "string \<Rightarrow> (string \<times> string) list option \<Rightarrow> (string \<times> jsval) list" where
  "spreadTruthyRecord key v = (case v of None \<Rightarrow> [] | Some kvs \<Rightarrow> [(key, strRecord kvs)])"

definition spreadNonEmpty :: "string \<Rightarrow> (string \<times> string) list option \<Rightarrow> (string \<times> jsval) list" where
  "spreadNonEmpty key v =
     (case nonEmpty v of
        None \<Rightarrow> []
      | Some _ \<Rightarrow> (case v of None \<Rightarrow> [] | Some kvs \<Rightarrow> [(key, strRecord kvs)]))"

definition spreadTimeout :: "int option \<Rightarrow> (string \<times> jsval) list" where
  "spreadTimeout v = (case v of None \<Rightarrow> [] | Some n \<Rightarrow> [(''timeout'', Num n)])"

text \<open>A property written without a guard, \<open>{ key: input.field }\<close>.\<close>

definition plainStr :: "string \<Rightarrow> string option \<Rightarrow> (string \<times> jsval) list" where
  "plainStr key v = [(key, (case v of None \<Rightarrow> Undefined | Some s \<Rightarrow> Str s))]"

text \<open>The \<open>server\<close> object that \<open>renderMcpServer\<close> builds, branch by branch.\<close>

definition renderServer :: "RenderInput \<Rightarrow> (string \<times> jsval) list" where
  "renderServer input =
     (if agent input = ''cursor'' then
        (if transport input = Stdio then
           spreadStr ''command'' (command input) @ spreadArgs (args input)
           @ spreadTruthyRecord ''env'' (env input)
         else if transport input = Sse then
           [(''type'', Str ''sse'')] @ spreadStr ''url'' (url input)
           @ spreadNonEmpty ''headers'' (headers input)
         else
           [(''type'', Str ''http'')] @ spreadStr ''url'' (url input)
           @ spreadNonEmpty ''headers'' (headers input))
      else if agent input = ''gemini'' then
        (if transport input = Stdio then
           [(''transport'', Str ''stdio'')] @ spreadStr ''command'' (command input)
           @ spreadArgs (args input) @ spreadStr ''cwd'' (cwd input)
           @ spreadNonEmpty ''env'' (env input) @ spreadTimeout (timeout input)
         else if transport input = Sse then
           [(''transport'', Str ''sse'')] @ spreadStr ''url'' (url input)
           @ spreadNonEmpty ''headers'' (headers input)
           @ spreadNonEmpty ''env'' (env input) @ spreadTimeout (timeout input)
         else
           spreadStr ''httpUrl'' (url input)
           @ spreadNonEmpty ''headers'' (headers input)
           @ spreadNonEmpty ''env'' (env input) @ spreadTimeout (timeout input))
      else if agent input = ''claude'' then
        (if transport input = Stdio then
           spreadStr ''command'' (command input) @ spreadArgs (args input)
           @ spreadNonEmpty ''env'' (env input)
         else if transport input = Sse then
           [(''type'', Str ''sse'')] @ spreadStr ''url'' (url input)
           @ spreadNonEmpty ''headers'' (headers input)
         else
           [(''type'', Str ''http'')] @ spreadStr ''url'' (url input)
           @ spreadNonEmpty ''headers'' (headers input))
      else
        (if transport input = Stdio then
           plainStr ''command'' (command input) @ spreadArgs (args input)
           @ spreadNonEmpty ''env'' (env input)
         else
           plainStr ''url'' (url input) @ spreadNonEmpty ''headers'' (headers input)))"

definition renderMcpServer :: "RenderInput \<Rightarrow> jsval" where
  "renderMcpServer input =
     Obj [(''mcpServers'', Obj [(serverId input, Obj (renderServer input))])]"

subsection \<open>Inputs on which masking twice is masking once\<close>

text \<open>
  A value is stable under the mask when it is not a string, or is the empty string, or
  has at least four characters. An input object is stable when every value that
  \<open>redactSensitive\<close> masks is: the values of sensitive keys of \<open>headers\<close>, of \<open>env\<close> and
  of the object itself.
\<close>

definition maskStable :: "jsval \<Rightarrow> bool" where
  "maskStable v = (case v of Str s \<Rightarrow> length s = 0 \<or> 4 \<le> length s | _ \<Rightarrow> True)"

definition stableEntries :: "(string \<Rightarrow> bool) \<Rightarrow> (string \<times> jsval) list \<Rightarrow> bool" where
  "stableEntries test es = list_all (\<lambda>(k, v). test k \<longrightarrow> maskStable v) es"

definition stableField :: "string \<Rightarrow> (string \<Rightarrow> bool) \<Rightarrow> (string \<times> jsval) list \<Rightarrow> bool" where
  "stableField field test obj =
     list_all (\<lambda>(k, v). k = field \<longrightarrow> (case v of Obj es \<Rightarrow> stableEntries test es | _ \<Rightarrow> True)) obj"

definition stableInput :: "(string \<times> jsval) list \<Rightarrow> bool" where
  "stableInput obj =
     (stableField ''headers'' SENSITIVE_KEYS obj \<and> stableField ''env'' ENV_SENSITIVE obj
      \<and> stableEntries SENSITIVE_KEYS obj)"

text \<open>What the three passes do to one entry.\<close>

definition redactEntry :: "string \<Rightarrow> jsval \<Rightarrow> jsval" where
  "redactEntry k v =
     (if k = ''headers'' then (case v of Obj es \<Rightarrow> Obj (maskEntries SENSITIVE_KEYS es) | _ \<Rightarrow> v)
      else if k = ''env'' then (case v of Obj es \<Rightarrow> Obj (maskEntries ENV_SENSITIVE es) | _ \<Rightarrow> v)
      else if SENSITIVE_KEYS k then maskLast4 v else v)"

section \<open>The log redactor: \<open>src/utils/proxy.ts\<close>\<close>

definition SENSITIVE_HEADER_KEYS :: "string list" where
  "SENSITIVE_HEADER_KEYS =
     [''authorization'', ''x-api-key'', ''x-auth-token'', ''x-access-token'', ''proxy-authorization'']"

subsection \<open>Replacing every match of a regular expression\<close>

text \<open>
  \<open>s.replace(re, ...)\<close> with the \<open>g\<close> flag scans \<open>s\<close> from the left. At each position it
  tries the expression; where it matches, the replacement is written and the scan goes
  on behind the match, and where it does not, the character is copied. None of the
  expressions of this file looks behind the position, so a match is a function of the
  text from the position on: the matcher \<open>m\<close> gets that text and returns the
  replacement and the text behind the match. Every expression of this file matches at
  least one character; the guard on the length is what makes the scan a total function.
\<close>

function replaceAll :: "(string \<Rightarrow> (string \<times> string) option) \<Rightarrow> string \<Rightarrow> string" where
  "replaceAll m [] = []"
| "replaceAll m (c # cs) =
     (case m (c # cs) of
        None \<Rightarrow> c # replaceAll m cs
      | Some (out, rest) \<Rightarrow>
          (if length rest \<le> length cs then out @ replaceAll m rest
           else c # replaceAll m cs))"
  by pat_completeness auto
termination
  by (relation "measure (\<lambda>(m, s). length s)") auto

text \<open>
  The expression \<open>/(--oauth2Bearer\s+)([^\s"']+)/gi\<close> with the replacement
  \<open>$1<redacted:bearer>\<close>. The flag is matched without regard to case; \<open>\s+\<close> takes the
  whole run of white space, which must not be empty, and the class takes the whole
  run of characters that are neither white space nor a quote, which must not be
  empty either (giving back white space would put white space in front of the class).
\<close>

definition tokenChar :: "char \<Rightarrow> bool" where
  "tokenChar c = (\<not> isSpace c \<and> c \<noteq> CHR 0x22 \<and> c \<noteq> CHR 0x27)"

definition matchBearer :: "string \<Rightarrow> (string \<times> string) option" where
  "matchBearer s =
     (let flag = take 14 s;
          r = drop 14 s;
          ws = takeWhile isSpace r;
          r' = dropWhile isSpace r;
          tok = takeWhile tokenChar r'
      in if toLowerCase flag = ''--oauth2bearer'' \<and> ws \<noteq> [] \<and> tok \<noteq> []
         then Some (flag @ ws @ ''<redacted:bearer>'', dropWhile tokenChar r')
         else None)"

text \<open>
  The expression \<open>(k\s*:\s*)(.+?)(?=$|\r|\n)\<close> with the flags \<open>gi\<close>, for a lower-case
  literal \<open>k\<close>, and the replacement \<open>$1<redacted:k>\<close>. The dot matches every character
  but a line terminator, and the lazy \<open>.+?\<close> grows until the end of the text or a line
  terminator follows: the value is the rest of the line. The second \<open>\s*\<close> takes the
  whole run of white space behind the colon. When the text ends with that run, the
  value is empty there, and the expression gives white space back until the value can
  start: the value is then the last character of the run that is not a line
  terminator, if there is one.
\<close>

definition lineTerminator :: "char \<Rightarrow> bool" where
  "lineTerminator c = (c = CHR 0x0A \<or> c = CHR 0x0D)"

definition matchHeader :: "string \<Rightarrow> string \<Rightarrow> (string \<times> string) option" where
  "matchHeader k s =
     (let name = take (length k) s;
          r = drop (length k) s;
          ws1 = takeWhile isSpace r;
          r1 = dropWhile isSpace r
      in if toLowerCase name \<noteq> k then None
         else
           (case r1 of
              [] \<Rightarrow> None
            | c # r2 \<Rightarrow>
                (if c \<noteq> CHR '':'' then None
                 else
                   (let ws2 = takeWhile isSpace r2;
                        r3 = dropWhile isSpace r2
                    in if r3 \<noteq> [] then
                         Some (name @ ws1 @ '':'' @ ws2 @ ''<redacted:'' @ k @ ''>'',
                               dropWhile (\<lambda>c. \<not> lineTerminator c) r3)
                       else
                         (let kept = rev (dropWhile lineTerminator (rev ws2))
                          in if kept = [] then None
                             else Some (name @ ws1 @ '':'' @ butlast kept @ ''<redacted:'' @ k @ ''>'',
                                        drop (length kept) ws2))))))"

text \<open>
  \<open>redactString\<close>: the bearer flag, then the header \<open>Authorization\<close>, then every header
  of \<open>SENSITIVE_HEADER_KEYS\<close> in the order of the list.
\<close>

definition redactString :: "string \<Rightarrow> string" where
  "redactString s =
     (let out = replaceAll matchBearer s;
          out = replaceAll (matchHeader ''authorization'') out
      in fold (\<lambda>k out. replaceAll (matchHeader k) out) SENSITIVE_HEADER_KEYS out)"

text \<open>
  The array branch of \<open>redactForLogs\<close>, for an array of strings. At a bearer flag the
  flag is pushed; when an element follows, the placeholder is pushed for it and the
  loop continues behind it. When none follows, control leaves the \<open>if\<close> and reaches the
  last statement of the loop body, which pushes the redacted element once more.
\<close>

fun redactForLogs_argv :: "string list \<Rightarrow> string list" where
  "redactForLogs_argv [] = []"
| "redactForLogs_argv (part # rest) =
     (if toLowerCase part = ''--oauth2bearer'' then
        (case rest of
           [] \<Rightarrow> [part, redactString part]
         | tok # rest' \<Rightarrow> part # ''<redacted:bearer>'' # redactForLogs_argv rest')
      else redactString part # redactForLogs_argv rest)"


subsection \<open>The keys of a value\<close>

text \<open>
  The value with every leaf forgotten: what is left are the keys of every object and
  the positions of every array, at every level.
\<close>

fun keySkeleton :: "jsval \<Rightarrow> jsval" where
  "keySkeleton (Obj es) = Obj (map (\<lambda>e. (fst e, keySkeleton (snd e))) es)"
| "keySkeleton (Arr vs) = Arr (map keySkeleton vs)"
| "keySkeleton v = Null"

subsection \<open>The object branch of \<open>redactForLogs\<close>\<close>

text \<open>
  The object branch assigns to properties of objects that the caller can still reach,
  so objects have an identity here: a heap is a list of objects, an address is an
  index into it, and a property holds a primitive value or an address. An array is an
  object whose keys are its indices.
\<close>

datatype hval = HUndefined | HNull | HBool bool | HNum int | HStr string | HRef nat

type_synonym hobject = "(string \<times> hval) list"

type_synonym heap = "hobject list"

text \<open>\<open>obj[k] = v\<close>: an own property keeps its place, a new one is added at the end.\<close>

definition setProp :: "string \<Rightarrow> 'v \<Rightarrow> (string \<times> 'v) list \<Rightarrow> (string \<times> 'v) list" where
  "setProp k v obj =
     (if k \<in> fst ` set obj then map (\<lambda>(k', v'). if k' = k then (k', v) else (k', v')) obj
      else obj @ [(k, v)])"

text \<open>
  \<open>/^Bearer\s+\S+$/i.test(v)\<close>: the word, a run of white space that is not empty, and
  then characters other than white space, at least one, up to the end.
\<close>

definition isBearerValue :: "string \<Rightarrow> bool" where
  "isBearerValue v =
     (let r = drop 6 v;
          ws = takeWhile isSpace r;
          tok = dropWhile isSpace r
      in toLowerCase (take 6 v) = ''bearer'' \<and> ws \<noteq> [] \<and> tok \<noteq> [] \<and> (\<forall>c \<in> set tok. \<not> isSpace c))"

text \<open>The value that \<open>walk\<close> assigns to a property \<open>k\<close> holding the string \<open>v\<close>.\<close>

definition redactProperty :: "string \<Rightarrow> string \<Rightarrow> string" where
  "redactProperty k v =
     (let keyLower = toLowerCase k
      in if keyLower = ''authorization'' then
           (if isBearerValue v then ''Bearer <redacted:authorization>''
            else ''<redacted:authorization>'')
         else if keyLower \<in> set SENSITIVE_HEADER_KEYS then ''<redacted:'' @ keyLower @ ''>''
         else if isBearerValue v then ''Bearer <redacted:authorization>''
         else redactString v)"

text \<open>
  \<open>walk(obj)\<close> goes through the entries that \<open>obj\<close> has when the loop starts. It calls
  itself on a property that holds an object and assigns to a property that holds a
  string. The recursion has no bound in the code and does not end on a cyclic value;
  here it carries a bound on its depth, and \<open>None\<close> is the recursion that exceeds it.
\<close>

fun walk :: "nat \<Rightarrow> nat \<Rightarrow> heap \<Rightarrow> heap option" where
  "walk 0 a h = None"
| "walk (Suc n) a h =
     (if a < length h then
        fold (\<lambda>e r. case r of
                       None \<Rightarrow> None
                     | Some h' \<Rightarrow>
                         (case snd e of
                            HRef b \<Rightarrow> walk n b h'
                          | HStr s \<Rightarrow> Some (h'[a := setProp (fst e) (HStr (redactProperty (fst e) s)) (h' ! a)])
                          | _ \<Rightarrow> Some h'))
             (h ! a) (Some h)
      else Some h)"

text \<open>
  \<open>redactForLogs(x)\<close> for an object \<open>x\<close>: \<open>clone = { ...x }\<close> is a new object with the
  properties of \<open>x\<close>, which still hold the addresses that \<open>x\<close> holds; then \<open>walk(clone)\<close>.
  The result is the address of the clone and the heap after the walk.
\<close>

definition redactForLogs_object :: "nat \<Rightarrow> nat \<Rightarrow> heap \<Rightarrow> (nat \<times> heap) option" where
  "redactForLogs_object depth x h =
     (let clone = length h;
          h1 = h @ [h ! x]
      in case walk depth clone h1 of
           None \<Rightarrow> None
         | Some h' \<Rightarrow> Some (clone, h'))"

section \<open>The status command: \<open>buildProviderStatuses\<close>\<close>

text \<open>\<open>s.trim()\<close> removes white space at both ends.\<close>

definition trim :: "string \<Rightarrow> string" where
  "trim s = rev (dropWhile isSpace (rev (dropWhile isSpace s)))"

text \<open>The decimal numeral of a number: the keys of an array.\<close>

function showNat :: "nat \<Rightarrow> string" where
  "showNat n =
     (if n < 10 then [''0123456789'' ! n]
      else showNat (n div 10) @ [''0123456789'' ! (n mod 10)])"
  by pat_completeness auto
termination
  by (relation "measure id") auto

text \<open>
  \<open>v && typeof v === 'object'\<close>, \<open>Object.entries(v)\<close> for such a value, and the property
  access \<open>v?.key\<close>.
\<close>

definition isObject :: "jsval \<Rightarrow> bool" where
  "isObject v = (case v of Obj _ \<Rightarrow> True | Arr _ \<Rightarrow> True | _ \<Rightarrow> False)"

definition objectEntries :: "jsval \<Rightarrow> (string \<times> jsval) list" where
  "objectEntries v =
     (case v of
        Obj es \<Rightarrow> es
      | Arr vs \<Rightarrow> zip (map showNat [0..<length vs]) vs
      | _ \<Rightarrow> [])"

definition getProp :: "string \<Rightarrow> jsval \<Rightarrow> jsval" where
  "getProp key v =
     (case v of
        Obj es \<Rightarrow> (case map_of es key of Some x \<Rightarrow> x | None \<Rightarrow> Undefined)
      | _ \<Rightarrow> Undefined)"

text \<open>
  \<open>redactSensitive\<close> applied to an entry of a server map. The entry need not be a plain
  object: an array, a string, a number or a boolean has no \<open>headers\<close>, no \<open>env\<close> and no
  sensitive key, and comes back as it is. On null the property access throws; the
  callers below test \<open>nullish\<close> before they use the result.
\<close>

definition nullish :: "jsval \<Rightarrow> bool" where
  "nullish v = (v = Null \<or> v = Undefined)"

definition redactSensitiveValue :: "jsval \<Rightarrow> jsval" where
  "redactSensitiveValue v = (case v of Obj es \<Rightarrow> Obj (redactSensitive es) | _ \<Rightarrow> v)"

text \<open>
  \<open>ProviderDetectionResult\<close>, as far as the status command reads it, and
  \<open>ProviderStatus\<close>. An absent optional field is \<open>None\<close>.
\<close>

record ProviderDetectionResult =
  det_provider_name :: string
  det_detected :: bool
  det_configPath :: "string option"
  det_error :: "string option"

record ProviderStatus =
  name :: string
  detected :: bool
  configPath :: "string option"
  error :: "string option"
  servers :: "(string \<times> jsval) list option"

text \<open>
  What the command reads from outside: \<open>fs.readFile\<close>, \<open>TOML.parse\<close> and
  \<open>FileOperations.readJsonFile\<close>. Each returns its result (\<open>Inr\<close>) or throws an error
  with a message (\<open>Inl\<close>).
\<close>

record StatusEnv =
  readFile :: "string \<Rightarrow> string + string"
  tomlParse :: "string \<Rightarrow> string + jsval"
  readJsonFile :: "string \<Rightarrow> string + jsval"

text \<open>
  \<open>extractMCPServers\<close>: the entries of \<open>cfg.mcpServers\<close> that are objects; none of them
  is null.
\<close>

definition extractMCPServers :: "jsval \<Rightarrow> (string \<times> jsval) list" where
  "extractMCPServers cfg =
     (let mcp = getProp ''mcpServers'' cfg
      in if \<not> isObject mcp then []
         else filter (\<lambda>(id, v). isObject v) (objectEntries mcp))"

text \<open>
  The servers of the Codex CLI branch, from the parsed TOML document. The whole
  assignment stands inside the inner \<open>try\<close>: when \<open>redactSensitive\<close> throws on an entry,
  \<open>servers\<close> keeps its initial value, the empty list.
\<close>

definition codexServers :: "jsval \<Rightarrow> (string \<times> jsval) list" where
  "codexServers parsed =
     (let mcp = getProp ''mcp_servers'' parsed
      in if \<not> isObject mcp then []
         else if \<exists>e \<in> set (objectEntries mcp). nullish (snd e) then []
         else map (\<lambda>(id, cfg). (id, redactSensitiveValue cfg)) (objectEntries mcp))"

text \<open>The body of the function mapped over the detections.\<close>

definition providerStatus :: "StatusEnv \<Rightarrow> ProviderDetectionResult \<Rightarrow> ProviderStatus" where
  "providerStatus e det =
     (if \<not> det_detected det then
        \<lparr>name = det_provider_name det, detected = False, configPath = None,
         error = (case det_error det of
                    None \<Rightarrow> None
                  | Some msg \<Rightarrow> (if msg = [] then None else Some msg)),
         servers = None\<rparr>
      else
        (case det_configPath det of
           None \<Rightarrow>
             \<lparr>name = det_provider_name det, detected = True, configPath = None,
              error = None, servers = None\<rparr>
         | Some path \<Rightarrow>
             (if path = [] then
                \<lparr>name = det_provider_name det, detected = True, configPath = None,
                 error = None, servers = None\<rparr>
              else if det_provider_name det = ''Codex CLI'' then
                (case readFile e path of
                   Inl msg \<Rightarrow>
                     \<lparr>name = det_provider_name det, detected = True, configPath = Some path,
                      error = Some msg, servers = None\<rparr>
                 | Inr raw \<Rightarrow>
                     \<lparr>name = det_provider_name det, detected = True, configPath = Some path,
                      error = None,
                      servers = Some
                        (if raw \<noteq> [] \<and> length (trim raw) > 0 then
                           (case tomlParse e raw of
                              Inl msg \<Rightarrow> []
                            | Inr parsed \<Rightarrow> codexServers parsed)
                         else [])\<rparr>)
              else
                (case readJsonFile e path of
                   Inl msg \<Rightarrow>
                     \<lparr>name = det_provider_name det, detected = True, configPath = Some path,
                      error = Some msg, servers = None\<rparr>
                 | Inr config \<Rightarrow>
                     \<lparr>name = det_provider_name det, detected = True, configPath = Some path,
                      error = None,
                      servers = Some (map (\<lambda>(id, c). (id, redactSensitiveValue c))
                                        (extractMCPServers config))\<rparr>))))"

text \<open>
  \<open>buildProviderStatuses\<close>: one status for each detection, in the order of the
  detections (\<open>Promise.all\<close> keeps the order of its promises).
\<close>

definition buildProviderStatuses :: "StatusEnv \<Rightarrow> ProviderDetectionResult list \<Rightarrow> ProviderStatus list" where
  "buildProviderStatuses e detections = map (providerStatus e) detections"

section \<open>The configure command: validation\<close>

text \<open>
  The options of the command after the constructor has filled in the defaults
  (\<open>Required<ConfigureCommandOptions>\<close>): the fields that \<open>validateOptions\<close> and
  \<open>configureAgents\<close> read, and \<open>command\<close>. A missing endpoint, directory or command is
  the empty string. \<open>agents\<close> is a list of names (\<open>Inl\<close>) or one string (\<open>Inr\<close>).
\<close>

record ConfigureCommandOptions =
  mcpServerEndpoint :: string
  opt_transport :: Transport
  interactive :: bool
  dryRun :: bool
  configDir :: string
  opt_command :: string
  agents :: "string list + string"
  backup :: bool

text \<open>
  What \<open>validateOptions\<close> asks the platform: whether \<open>new URL(s)\<close> returns, whether a path
  exists, and \<open>statSync\<close>, which returns whether the path is a directory or throws. A
  thrown value is an \<open>Error\<close> with a message or something else.
\<close>

datatype thrown = ErrorObject string | OtherValue

record Platform =
  urlParses :: "string \<Rightarrow> bool"
  existsSync :: "string \<Rightarrow> bool"
  statSync :: "string \<Rightarrow> thrown + bool"

text \<open>\<open>validateOptions\<close>: the message of the error it throws, or nothing.\<close>

definition validateOptions :: "Platform \<Rightarrow> ConfigureCommandOptions \<Rightarrow> string + unit" where
  "validateOptions p opts =
     (let t = opt_transport opts;
          requiresUrl = (t = Http \<or> t = Sse)
      in if \<not> interactive opts \<and> requiresUrl \<and> mcpServerEndpoint opts = [] \<and> \<not> dryRun opts then
           Inl ''--mcp-server-endpoint is required for http/sse in non-interactive mode''
         else if mcpServerEndpoint opts \<noteq> []
                 \<and> (opt_transport opts = Http \<or> opt_transport opts = Sse)
                 \<and> \<not> urlParses p (mcpServerEndpoint opts) then
           Inl (''Invalid MCP server endpoint URL: '' @ mcpServerEndpoint opts)
         else if configDir opts \<noteq> [] \<and> trim (configDir opts) \<noteq> [] then
           (let dir = trim (configDir opts)
            in if \<not> existsSync p dir then
                 Inl (''Configuration directory does not exist: '' @ dir)
               else
                 (case statSync p dir of
                    Inr isDir \<Rightarrow>
                      (if \<not> isDir then Inl (''Configuration path is not a directory: '' @ dir)
                       else Inr ())
                  | Inl (ErrorObject msg) \<Rightarrow> Inl msg
                  | Inl OtherValue \<Rightarrow> Inl (''Unable to access configuration directory: '' @ dir)))
         else Inr ())"

text \<open>
  \<open>execute\<close> calls \<open>validateOptions\<close> first; an error it throws leaves \<open>execute\<close> at once.
  Everything that \<open>execute\<close> does afterwards (logging, the wizard, detection of the
  agents, the preview, \<open>configureAgents\<close>) is the parameter \<open>rest\<close>, a function of the
  options and of the state \<open>w\<close> of the world outside, the configuration files among it.
\<close>

definition execute ::
  "Platform \<Rightarrow> (ConfigureCommandOptions \<Rightarrow> 'w \<Rightarrow> (string + unit) \<times> 'w)
     \<Rightarrow> ConfigureCommandOptions \<Rightarrow> 'w \<Rightarrow> (string + unit) \<times> 'w" where
  "execute p rest opts w =
     (case validateOptions p opts of
        Inl msg \<Rightarrow> (Inl msg, w)
      | Inr _ \<Rightarrow> rest opts w)"

section \<open>The transaction behind \<open>configureAgents\<close>\<close>

text \<open>
  \<open>configureAgents\<close> hands its work to \<open>defaultRegistry.configureAllDetectedAgents\<close>,
  whose code (\<open>src/agents/registry\<close> and the providers behind it) is not among the
  source files. The definitions of this section that model it follow sections 3, 4.3
  and 4.4 of the specification and say so.
\<close>





















subsection \<open>An example\<close>







subsection \<open>Notions for the properties of \<open>redactString\<close>\<close>





section \<open>Properties of the renderer\<close>

text \<open>
  C10. For every render input, the fallback branch for other agent names included,
  \<open>renderMcpServer\<close> returns an object with exactly one top-level key, the literal
  \<open>mcpServers\<close>, whose value has exactly one entry, keyed by the input's \<open>serverId\<close>.
\<close>

theorem renderMcpServer_container:
  "\<exists>server. renderMcpServer input = Obj [(''mcpServers'', Obj [(serverId input, Obj server)])]"
  by (simp add: renderMcpServer_def)

text \<open>
  For the three agents the function names, no property of the server object is
  undefined: every optional property sits behind a guard.
\<close>

lemma renderServer_known_agent_defined:
  assumes "agent input \<in> {''cursor'', ''gemini'', ''claude''}"
  shows "Undefined \<notin> snd ` set (renderServer input)"
  using assms
  by (auto simp: renderServer_def spreadStr_def spreadArgs_def spreadTruthyRecord_def
        spreadNonEmpty_def spreadTimeout_def strRecord_def nonEmpty_def
      split: option.splits if_splits)

text \<open>
  C2. The server object of \<open>renderMcpServer\<close> has no undefined value, and has a
  \<open>headers\<close> or \<open>env\<close> key only when that input mapping is present and not empty. The
  code departs from this at two inputs, evaluated here: for the agent \<open>cursor\<close> with
  transport \<open>stdio\<close> a present but empty \<open>env\<close> is rendered as an \<open>env\<close> key holding an
  empty object (the guard is \<open>input.env\<close>, where the branches of \<open>gemini\<close> and \<open>claude\<close>
  guard with \<open>nonEmpty(input.env)\<close>); and in the branch for other agents an absent
  \<open>command\<close> is rendered as a \<open>command\<close> key holding undefined.
\<close>

theorem renderMcpServer_cursor_stdio_empty_env:
  "renderMcpServer \<lparr>agent = ''cursor'', serverId = ''demo'', transport = Stdio, url = None,
      headers = None, command = Some ''npx'', args = None, cwd = None, env = Some [],
      timeout = None\<rparr>
     = Obj [(''mcpServers'', Obj [(''demo'', Obj [(''command'', Str ''npx''), (''env'', Obj [])])])]
   \<and> renderMcpServer \<lparr>agent = ''other'', serverId = ''demo'', transport = Stdio, url = None,
      headers = None, command = None, args = None, cwd = None, env = None,
      timeout = None\<rparr>
     = Obj [(''mcpServers'', Obj [(''demo'', Obj [(''command'', Undefined)])])]"
  by (simp add: renderMcpServer_def renderServer_def spreadStr_def spreadArgs_def
        spreadTruthyRecord_def spreadNonEmpty_def plainStr_def strRecord_def nonEmpty_def)

section \<open>Properties of the masks\<close>

lemma last4_length: "4 \<le> length v \<Longrightarrow> length (last4 v) = 4"
  by (simp add: last4_def)

lemma last4_suffix: "suffix (last4 v) v"
  by (simp add: last4_def suffix_drop)

text \<open>
  A text of at least four characters without an asterisk that occurs in four
  asterisks followed by four characters is those four characters.
\<close>

lemma stars_no_other_substring:
  assumes len: "length l = 4" and s4: "4 \<le> length s"
    and nostar: "CHR ''*'' \<notin> set s"
    and sub: "sublist s (''****'' @ l)"
  shows "s = l"
proof -
  from sub obtain ps ss where eq: "''****'' @ l = ps @ s @ ss"
    by (auto simp: sublist_def)
  from s4 have sne: "s \<noteq> []" by auto
  have "\<not> length ps < 4"
  proof
    assume lt: "length ps < 4"
    have "(ps @ s @ ss) ! length ps = hd s"
      using sne by (simp add: nth_append hd_conv_nth)
    moreover have "(''****'' @ l) ! length ps = CHR ''*''"
      using lt by (simp add: nth_append nth_Cons')
    ultimately have "hd s = CHR ''*''" using eq by simp
    with sne nostar show False by (metis hd_in_set)
  qed
  then have ge: "4 \<le> length ps" by simp
  have "length (ps @ s @ ss) = 8" using eq[symmetric] len by simp
  then have "length ps + length s + length ss = 8" by simp
  with ge s4 have lp: "length ps = 4" and "length ss = 0" by arith+
  then have lss: "ss = []" by simp
  from eq lp have "take 4 (''****'' @ l) = ps" by simp
  then have "ps = ''****''" by simp
  with eq lss show ?thesis by simp
qed

text \<open>
  C3 (as amended). For every value \<open>v\<close> of at least four characters, \<open>maskLast4\<close> of the
  status command and \<open>redact\<close> of the configure command give exactly four asterisks
  followed by the last four characters of \<open>v\<close>, so the output ends with the last four
  characters of \<open>v\<close>; and when \<open>v\<close> has no asterisk of its own, every text of at least
  four characters that occurs both in the output and in \<open>v\<close> is those last four
  characters. Without the condition on asterisks the last part fails: the four
  asterisks of the mask, or some of them with the start of the last four characters,
  can occur in \<open>v\<close>.
\<close>

theorem mask_law:
  assumes "4 \<le> length v"
  shows "maskLast4 (Str v) = Str (''****'' @ last4 v)
       \<and> redact (Some v) = ''****'' @ last4 v
       \<and> length (last4 v) = 4
       \<and> suffix (last4 v) v
       \<and> suffix (last4 v) (''****'' @ last4 v)
       \<and> (CHR ''*'' \<notin> set v \<longrightarrow>
            (\<forall>s. 4 \<le> length s \<and> sublist s (''****'' @ last4 v) \<and> sublist s v \<longrightarrow> s = last4 v))"
proof -
  have a: "maskLast4 (Str v) = Str (''****'' @ last4 v)"
    using assms by (auto simp: maskLast4_def)
  have b: "redact (Some v) = ''****'' @ last4 v"
    using assms by (auto simp: redact_def)
  have c: "length (last4 v) = 4" using assms by (rule last4_length)
  have d: "suffix (last4 v) v" by (rule last4_suffix)
  have e: "suffix (last4 v) (''****'' @ last4 v)" by (simp add: suffix_def)
  have f: "CHR ''*'' \<notin> set v \<longrightarrow>
            (\<forall>s. 4 \<le> length s \<and> sublist s (''****'' @ last4 v) \<and> sublist s v \<longrightarrow> s = last4 v)"
  proof (intro impI allI)
    fix s
    assume ns: "CHR ''*'' \<notin> set v"
      and h: "4 \<le> length s \<and> sublist s (''****'' @ last4 v) \<and> sublist s v"
    from h have "set s \<subseteq> set v" by (auto dest: set_mono_sublist)
    with ns have "CHR ''*'' \<notin> set s" by auto
    with c h show "s = last4 v" by (auto intro: stars_no_other_substring)
  qed
  from a b c d e f show ?thesis by blast
qed

theorem mask_law_witness:
  "maskLast4 (Str ''abcd1234efgh'') = Str ''****efgh''
   \<and> redact (Some ''abcd1234efgh'') = ''****efgh''
   \<and> \<not> sublist ''1234'' ''****efgh''"
proof -
  have h: "4 \<le> length ''abcd1234efgh''" by simp
  have n: "CHR ''*'' \<notin> set ''abcd1234efgh''" by simp
  have l: "last4 ''abcd1234efgh'' = ''efgh''" by (simp add: last4_def)
  have s: "sublist ''1234'' ''abcd1234efgh''" by code_simp
  from mask_law [OF h] n l
  have all: "\<forall>s. 4 \<le> length s \<and> sublist s ''****efgh'' \<and> sublist s ''abcd1234efgh'' \<longrightarrow> s = ''efgh''"
    and m: "maskLast4 (Str ''abcd1234efgh'') = Str ''****efgh''"
    and r: "redact (Some ''abcd1234efgh'') = ''****efgh''"
    by simp_all
  from all [rule_format, of "''1234''"] s have "\<not> sublist ''1234'' ''****efgh''" by auto
  with m r show ?thesis by simp
qed

text \<open>
  The claim as first stated fails at \<open>v = "***abcd"\<close>: the output \<open>"****abcd"\<close> contains
  \<open>"***a"\<close>, which occurs in \<open>v\<close>, has four characters and is not the last four.
\<close>

theorem mask_law_counterexample:
  "4 \<le> length ''***abcd''
   \<and> maskLast4 (Str ''***abcd'') = Str ''****abcd''
   \<and> redact (Some ''***abcd'') = ''****abcd''
   \<and> 4 \<le> length ''***a''
   \<and> sublist ''***a'' ''****abcd''
   \<and> sublist ''***a'' ''***abcd''
   \<and> ''***a'' \<noteq> last4 ''***abcd''"
proof -
  have "sublist ''***a'' ''****abcd''" by code_simp
  moreover have "sublist ''***a'' ''***abcd''" by code_simp
  ultimately show ?thesis by (simp add: maskLast4_def redact_def last4_def)
qed

section \<open>Properties of \<open>redactSensitive\<close>\<close>

lemma maskLast4_idem: "maskStable v \<Longrightarrow> maskLast4 (maskLast4 v) = maskLast4 v"
  by (cases v) (auto simp: maskLast4_def maskStable_def last4_def)

lemma maskEntries_idem:
  "stableEntries test es \<Longrightarrow> maskEntries test (maskEntries test es) = maskEntries test es"
  by (induction es) (auto simp: maskEntries_def stableEntries_def maskLast4_idem)

lemma headers_not_sensitive: "\<not> SENSITIVE_KEYS ''headers''"
  by (simp add: SENSITIVE_KEYS_def toLowerCase_def toLowerAscii_def)

lemma env_not_sensitive: "\<not> SENSITIVE_KEYS ''env''"
  by (simp add: SENSITIVE_KEYS_def toLowerCase_def toLowerAscii_def)

lemma redactSensitive_entrywise:
  "redactSensitive obj = map (\<lambda>(k, v). (k, redactEntry k v)) obj"
  using headers_not_sensitive env_not_sensitive
  by (induction obj)
     (auto simp: redactSensitive_def structuredCloneSafe_def maskField_def maskEntries_def
        redactEntry_def Let_def)

lemma redactEntry_idem:
  assumes "SENSITIVE_KEYS k \<longrightarrow> maskStable v"
    and "k = ''headers'' \<longrightarrow> (case v of Obj es \<Rightarrow> stableEntries SENSITIVE_KEYS es | _ \<Rightarrow> True)"
    and "k = ''env'' \<longrightarrow> (case v of Obj es \<Rightarrow> stableEntries ENV_SENSITIVE es | _ \<Rightarrow> True)"
  shows "redactEntry k (redactEntry k v) = redactEntry k v"
  using assms
  by (cases v) (auto simp: redactEntry_def maskEntries_idem maskLast4_idem)

text \<open>
  C4 (as amended). \<open>redactSensitive\<close> is idempotent on every input object whose masked
  values are stable: strings under sensitive keys that are empty or have at least four
  characters. A sensitive string of one to three characters is masked to four
  asterisks and the string itself, and masking that again gives a longer text, so the
  claim fails for such inputs.
\<close>

theorem redactSensitive_idempotent:
  assumes "stableInput x"
  shows "redactSensitive (redactSensitive x) = redactSensitive x"
proof -
  have "\<forall>(k, v) \<in> set x. redactEntry k (redactEntry k v) = redactEntry k v"
    using assms
    by (auto simp: stableInput_def stableField_def stableEntries_def list_all_iff
          intro!: redactEntry_idem)
  then show ?thesis
    by (auto simp: redactSensitive_entrywise)
qed


theorem redactSensitive_idempotent_witness:
  "stableInput [(''url'', Str ''https://example.com/mcp''),
                (''headers'', Obj [(''Authorization'', Str ''Bearer abcd1234efgh'')]),
                (''env'', Obj [(''MY_API_TOKEN'', Str ''tok12345''), (''PATH'', Str ''/b'')]),
                (''token'', Str '''')]
   \<and> redactSensitive (redactSensitive
         [(''url'', Str ''https://example.com/mcp''),
          (''headers'', Obj [(''Authorization'', Str ''Bearer abcd1234efgh'')]),
          (''env'', Obj [(''MY_API_TOKEN'', Str ''tok12345''), (''PATH'', Str ''/b'')]),
          (''token'', Str '''')])
       = [(''url'', Str ''https://example.com/mcp''),
          (''headers'', Obj [(''Authorization'', Str ''****efgh'')]),
          (''env'', Obj [(''MY_API_TOKEN'', Str ''****2345''), (''PATH'', Str ''/b'')]),
          (''token'', Str '''')]"
proof -
  let ?x = "[(''url'', Str ''https://example.com/mcp''),
             (''headers'', Obj [(''Authorization'', Str ''Bearer abcd1234efgh'')]),
             (''env'', Obj [(''MY_API_TOKEN'', Str ''tok12345''), (''PATH'', Str ''/b'')]),
             (''token'', Str '''')]"
  have st: "stableInput ?x" by code_simp
  have once: "redactSensitive ?x
       = [(''url'', Str ''https://example.com/mcp''),
          (''headers'', Obj [(''Authorization'', Str ''****efgh'')]),
          (''env'', Obj [(''MY_API_TOKEN'', Str ''****2345''), (''PATH'', Str ''/b'')]),
          (''token'', Str '''')]" by code_simp
  from redactSensitive_idempotent [OF st] once st show ?thesis by simp
qed

text \<open>
  The claim as first stated fails at the object \<open>{token: "ab"}\<close>.
\<close>

theorem redactSensitive_idempotent_counterexample:
  "redactSensitive [(''token'', Str ''ab'')] = [(''token'', Str ''****ab'')]
   \<and> redactSensitive (redactSensitive [(''token'', Str ''ab'')]) = [(''token'', Str ''******ab'')]
   \<and> redactSensitive (redactSensitive [(''token'', Str ''ab'')]) \<noteq> redactSensitive [(''token'', Str ''ab'')]"
  by (simp add: redactSensitive_def maskEntries_def maskField_def structuredCloneSafe_def
        maskLast4_def last4_def SENSITIVE_KEYS_def toLowerCase_def toLowerAscii_def)

subsection \<open>The keys stay\<close>

lemma keySkeleton_maskLast4: "keySkeleton (maskLast4 v) = keySkeleton v"
  by (cases v) (auto simp: maskLast4_def)

lemma keySkeleton_maskEntries:
  "map (\<lambda>e. (fst e, keySkeleton (snd e))) (maskEntries test es)
     = map (\<lambda>e. (fst e, keySkeleton (snd e))) es"
  by (induction es) (auto simp: maskEntries_def keySkeleton_maskLast4)

lemma keySkeleton_maskField:
  "map (\<lambda>e. (fst e, keySkeleton (snd e))) (maskField field test es)
     = map (\<lambda>e. (fst e, keySkeleton (snd e))) es"
  by (induction es) (auto simp: maskField_def keySkeleton_maskEntries split: jsval.splits)

text \<open>
  \<open>redactSensitive\<close> keeps the keys of its input at every level, in their order.
\<close>

lemma redactSensitive_keeps_keys:
  "keySkeleton (Obj (redactSensitive x)) = keySkeleton (Obj x)"
  by (simp add: redactSensitive_def structuredCloneSafe_def keySkeleton_maskEntries
        keySkeleton_maskField)

lemma redactSensitive_top_keys: "map fst (redactSensitive x) = map fst x"
  by (induction x) (auto simp: redactSensitive_entrywise)

section \<open>Properties of \<open>redactForLogs\<close> on arrays\<close>

text \<open>
  C5. Redaction keeps the structure of its input: the same keys at every level, and
  for an array of arguments the same number of elements in the same positions. For
  \<open>redactSensitive\<close> this holds (\<open>redactSensitive_keeps_keys\<close>). For \<open>redactForLogs\<close> it
  fails on an array that ends with the bearer flag: the flag is pushed inside the
  \<open>if\<close>, no element follows, and the last statement of the loop body pushes it again,
  so the result has one element more than the input.
\<close>

theorem redactForLogs_argv_trailing_flag:
  "redactForLogs_argv [''--sse'', ''https://example.com/sse'', ''--oauth2Bearer'']
     = [''--sse'', ''https://example.com/sse'', ''--oauth2Bearer'', ''--oauth2Bearer'']
   \<and> length (redactForLogs_argv [''--sse'', ''https://example.com/sse'', ''--oauth2Bearer'']) = 4"
  by code_simp

section \<open>Properties of \<open>redactForLogs\<close> on objects\<close>

text \<open>
  C6. Redaction leaves its input unchanged, nested objects included. \<open>redactSensitive\<close>
  works on a deep copy. \<open>redactForLogs\<close> copies only the first level of an object
  (\<open>{ ...x }\<close>) and then assigns inside the nested objects, which the copy shares with
  the input: for an input at address 0 whose \<open>headers\<close> is the object at address 1, the
  call changes the object at address 1, so the caller's \<open>x.headers.Authorization\<close> is
  the placeholder afterwards.
\<close>

theorem redactForLogs_object_mutates_input:
  "redactForLogs_object 3 0
      [[(''url'', HStr ''https://example.com/mcp''), (''headers'', HRef 1)],
       [(''Authorization'', HStr ''Bearer abcd1234efgh'')]]
   = Some (2,
      [[(''url'', HStr ''https://example.com/mcp''), (''headers'', HRef 1)],
       [(''Authorization'', HStr ''Bearer <redacted:authorization>'')],
       [(''url'', HStr ''https://example.com/mcp''), (''headers'', HRef 1)]])"
  by code_simp

section \<open>Properties of the status command\<close>

text \<open>
  Every detection gets its own status, which depends on no other detection.
\<close>

lemma buildProviderStatuses_pointwise:
  "length (buildProviderStatuses e ds) = length ds
   \<and> (\<forall>i < length ds. buildProviderStatuses e ds ! i = providerStatus e (ds ! i))"
  by (simp add: buildProviderStatuses_def)

text \<open>
  For a provider with a JSON file, a file that cannot be read or parsed gives a status
  with the error attached.
\<close>

lemma json_parse_error_reported:
  assumes "det_detected det" and "det_configPath det = Some path" and "path \<noteq> []"
    and "det_provider_name det \<noteq> ''Codex CLI''"
    and "readJsonFile e path = Inl msg"
  shows "providerStatus e det =
           \<lparr>name = det_provider_name det, detected = True, configPath = Some path,
            error = Some msg, servers = None\<rparr>"
  using assms by (simp add: providerStatus_def)

text \<open>
  C8. A configuration file that exists but cannot be parsed is not fatal for the
  status command: the status of that provider carries an error, and the other
  providers are reported as they are, the TOML provider Codex CLI included. For Codex
  CLI the code does not attach the error: the inner \<open>catch\<close> around \<open>TOML.parse\<close> is
  empty (its comment announces a generic error below, and there is none), so the
  status of a Codex CLI file that does not parse has no error and an empty list of
  servers, as for a file without servers.
\<close>

theorem codex_parse_error_not_reported:
  assumes "det_detected det" and "det_configPath det = Some path" and "path \<noteq> []"
    and "det_provider_name det = ''Codex CLI''"
    and "readFile e path = Inr raw" and "trim raw \<noteq> []"
    and "tomlParse e raw = Inl msg"
  shows "providerStatus e det =
           \<lparr>name = ''Codex CLI'', detected = True, configPath = Some path,
            error = None, servers = Some []\<rparr>"
proof -
  from assms(6) have "raw \<noteq> []" by (auto simp: trim_def)
  with assms show ?thesis by (simp add: providerStatus_def)
qed

theorem codex_parse_error_not_reported_witness:
  "providerStatus
     \<lparr>readFile = (\<lambda>p. Inr ''mcp_servers = = broken''),
      tomlParse = (\<lambda>s. Inl ''Unexpected character''),
      readJsonFile = (\<lambda>p. Inl ''not read'')\<rparr>
     \<lparr>det_provider_name = ''Codex CLI'', det_detected = True,
      det_configPath = Some ''/home/u/.codex/config.toml'', det_error = None\<rparr>
   = \<lparr>name = ''Codex CLI'', detected = True, configPath = Some ''/home/u/.codex/config.toml'',
      error = None, servers = Some []\<rparr>"
proof -
  have t: "trim ''mcp_servers = = broken'' \<noteq> []"
    by (simp add: trim_def isSpace_def)
  show ?thesis
    by (rule codex_parse_error_not_reported
          [where raw = "''mcp_servers = = broken''" and msg = "''Unexpected character''"])
       (simp_all add: t)
qed

section \<open>Properties of the validation\<close>

text \<open>
  C7 (as amended). With transport http or sse, a missing endpoint in non-interactive
  mode outside a dry run, or an endpoint that is present and that the URL parser
  rejects, makes \<open>validateOptions\<close> throw; \<open>execute\<close> calls it first, so the error
  leaves \<open>execute\<close> before anything else of the command has run: the rest is not
  entered and the world outside, the configuration files among it, is as it was.
  In a dry run a missing endpoint is accepted (the guard says so), and
  \<open>validateOptions\<close> has no check of the command for stdio.
\<close>

theorem validation_error_before_files:
  assumes "opt_transport opts = Http \<or> opt_transport opts = Sse"
    and "(mcpServerEndpoint opts = [] \<and> \<not> interactive opts \<and> \<not> dryRun opts)
         \<or> (mcpServerEndpoint opts \<noteq> [] \<and> \<not> urlParses p (mcpServerEndpoint opts))"
  shows "\<exists>msg. validateOptions p opts = Inl msg \<and> execute p rest opts w = (Inl msg, w)"
  using assms by (auto simp: validateOptions_def execute_def Let_def)

theorem validation_error_before_files_witness:
  "execute \<lparr>urlParses = (\<lambda>s. False), existsSync = (\<lambda>d. True), statSync = (\<lambda>d. Inr True)\<rparr>
      (\<lambda>opts w. (Inr (), ''configured'' # w))
      \<lparr>mcpServerEndpoint = ''not a url'', opt_transport = Http, interactive = False,
       dryRun = False, configDir = [], opt_command = [], agents = Inr ''cursor'', backup = True\<rparr>
      []
   = (Inl ''Invalid MCP server endpoint URL: not a url'', [])
   \<and> execute \<lparr>urlParses = (\<lambda>s. False), existsSync = (\<lambda>d. True), statSync = (\<lambda>d. Inr True)\<rparr>
      (\<lambda>opts w. (Inr (), ''configured'' # w))
      \<lparr>mcpServerEndpoint = [], opt_transport = Sse, interactive = False,
       dryRun = False, configDir = [], opt_command = [], agents = Inr ''cursor'', backup = True\<rparr>
      []
   = (Inl ''--mcp-server-endpoint is required for http/sse in non-interactive mode'', [])"
proof -
  let ?p = "\<lparr>urlParses = (\<lambda>s. False), existsSync = (\<lambda>d. True), statSync = (\<lambda>d. Inr True)\<rparr>"
  let ?rest = "\<lambda>(opts :: ConfigureCommandOptions) (w :: string list). (Inr () :: string + unit, ''configured'' # w)"
  let ?o1 = "\<lparr>mcpServerEndpoint = ''not a url'', opt_transport = Http, interactive = False,
       dryRun = False, configDir = [], opt_command = [], agents = Inr ''cursor'', backup = True\<rparr>"
  let ?o2 = "\<lparr>mcpServerEndpoint = [], opt_transport = Sse, interactive = False,
       dryRun = False, configDir = [], opt_command = [], agents = Inr ''cursor'', backup = True\<rparr>"
  have "\<exists>msg. validateOptions ?p ?o1 = Inl msg \<and> execute ?p ?rest ?o1 [] = (Inl msg, [])"
    by (rule validation_error_before_files) simp_all
  moreover have "\<exists>msg. validateOptions ?p ?o2 = Inl msg \<and> execute ?p ?rest ?o2 [] = (Inl msg, [])"
    by (rule validation_error_before_files) simp_all
  ultimately show ?thesis
    by (auto simp: validateOptions_def)
qed

text \<open>
  The claim as first stated fails for stdio without a command and for a dry run
  without an endpoint: \<open>validateOptions\<close> returns without an error.
\<close>

theorem validation_counterexample:
  "validateOptions \<lparr>urlParses = (\<lambda>s. False), existsSync = (\<lambda>d. False), statSync = (\<lambda>d. Inr False)\<rparr>
      \<lparr>mcpServerEndpoint = [], opt_transport = Stdio, interactive = False,
       dryRun = False, configDir = [], opt_command = [], agents = Inr ''cursor'', backup = True\<rparr>
     = Inr ()
   \<and> validateOptions \<lparr>urlParses = (\<lambda>s. False), existsSync = (\<lambda>d. False), statSync = (\<lambda>d. Inr False)\<rparr>
      \<lparr>mcpServerEndpoint = [], opt_transport = Http, interactive = False,
       dryRun = True, configDir = [], opt_command = [], agents = Inr ''cursor'', backup = True\<rparr>
     = Inr ()"
  by (simp add: validateOptions_def)

section \<open>Properties of the transaction\<close>












section \<open>Properties of \<open>redactString\<close> and of \<open>redactForLogs\<close>\<close>

















lemma toLowerCase_nonempty: "toLowerCase s = k \<Longrightarrow> k \<noteq> [] \<Longrightarrow> s \<noteq> []"
  by (auto simp: toLowerCase_def)

























end
